theory Spec2Isabelle
  imports Main "HOL-Library.AList"
begin

section \<open>JavaScript values and their rendering\<close>

text \<open>
  The relay is written in JavaScript. Identifiers and payload fields arrive as JSON
  values; the handlers test them for truthiness (\<^verbatim>\<open>!userId\<close>) and render them inside
  template literals (\<^verbatim>\<open>`user-${userId}`\<close>). Numbers are restricted to integers, which
  render in plain decimal, and objects are left out. Strings are sequences of code units
  in the range 0..255. Clock readings (\<^verbatim>\<open>Date.now()\<close>) are natural numbers of
  milliseconds.
\<close>

datatype jsval = JUndefined | JNull | JBool bool | JNum int | JStr string

fun truthy :: "jsval \<Rightarrow> bool" where
  "truthy JUndefined = False"
| "truthy JNull = False"
| "truthy (JBool b) = b"
| "truthy (JNum n) = (n \<noteq> 0)"
| "truthy (JStr s) = (s \<noteq> [])"

definition digit_char :: "nat \<Rightarrow> char" where
  "digit_char d = char_of (48 + d)"

fun show_nat :: "nat \<Rightarrow> string" where
  "show_nat n = (if n < 10 then [digit_char n] else show_nat (n div 10) @ [digit_char (n mod 10)])"

declare show_nat.simps [simp del]

definition show_int :: "int \<Rightarrow> string" where
  "show_int i = (if i < 0 then CHR ''-'' # show_nat (nat (- i)) else show_nat (nat i))"

text \<open>What a template literal \<^verbatim>\<open>`${v}`\<close> produces.\<close>

fun to_str :: "jsval \<Rightarrow> string" where
  "to_str JUndefined = ''undefined''"
| "to_str JNull = ''null''"
| "to_str (JBool b) = (if b then ''true'' else ''false'')"
| "to_str (JNum n) = show_int n"
| "to_str (JStr s) = s"

text \<open>
  A raised exception: \<^verbatim>\<open>new Error(message)\<close>, or the TypeError of reading a property
  of \<^verbatim>\<open>undefined\<close> or \<^verbatim>\<open>null\<close> or of calling what is not a function.
\<close>

datatype error = Error string | TypeError

text \<open>\<^verbatim>\<open>a || b\<close>\<close>

definition js_or :: "jsval \<Rightarrow> jsval \<Rightarrow> jsval" where
  "js_or a b = (if truthy a then a else b)"

text \<open>
  The regular expression class \<^verbatim>\<open>\s\<close> on code units up to 255: tab, line feed,
  vertical tab, form feed, carriage return, space and no-break space.
\<close>

definition is_space :: "char \<Rightarrow> bool" where
  "is_space c = ((of_char c :: nat) \<in> set [9, 10, 11, 12, 13, 32, 160])"

text \<open>\<^verbatim>\<open>s.replace(/\s+/g, '-')\<close>: every maximal run of whitespace becomes one dash.\<close>

function replace_ws :: "string \<Rightarrow> string" where
  "replace_ws [] = []"
| "replace_ws (c # cs) =
     (if is_space c then CHR ''-'' # replace_ws (dropWhile is_space cs)
      else c # replace_ws cs)"
  by pat_completeness auto
termination
  by (relation "measure length") (auto simp: less_Suc_eq_le length_dropWhile_le)

text \<open>\<^verbatim>\<open>message.slice(0, 20).replace(/\s+/g, '-')\<close>\<close>

definition message_part :: "string \<Rightarrow> string" where
  "message_part m = replace_ws (take 20 m)"

section \<open>The deduplication cache of lib/socket.js\<close>

text \<open>
  \<^verbatim>\<open>sentNotifications\<close> is a JavaScript \<^verbatim>\<open>Map\<close> from notification identifier to the
  clock reading (milliseconds since the epoch) at which it was recorded. A \<^verbatim>\<open>Map\<close> keeps
  insertion order and has one entry per key: an association list with
  \<^const>\<open>AList.update\<close> for \<^verbatim>\<open>set\<close>, \<^const>\<open>AList.delete\<close> for \<^verbatim>\<open>delete\<close> and
  \<^const>\<open>map_of\<close> for \<^verbatim>\<open>get\<close>.
\<close>

type_synonym cache = "(string \<times> nat) list"

definition has :: "('k \<times> 'v) list \<Rightarrow> 'k \<Rightarrow> bool" where
  "has m k = (map_of m k \<noteq> None)"

text \<open>
  Every send path runs the same two statements on the cache:
  \<^verbatim>\<open>if (sentNotifications.has(id)) { ...; return }\<close> and later
  \<^verbatim>\<open>sentNotifications.set(id, Date.now())\<close>. \<open>admit\<close> is that pair; the send paths
  below are written with it.
\<close>

definition admit :: "cache \<Rightarrow> string \<Rightarrow> nat \<Rightarrow> bool \<times> cache" where
  "admit c F now = (if has c F then (False, c) else (True, AList.update F now c))"

text \<open>
  The body of the cleanup timer (every 60000 ms):
  \<^verbatim>\<open>
  const fiveMinutesAgo = Date.now() - (5 * 60 * 1000)
  for (const [key, timestamp] of sentNotifications.entries())
    if (timestamp < fiveMinutesAgo) sentNotifications.delete(key)
  \<close>
\<close>

definition sweep :: "cache \<Rightarrow> nat \<Rightarrow> cache" where
  "sweep c now =
     (let fiveMinutesAgo = int now - (5 * 60 * 1000)
      in fold (\<lambda>(key, timestamp) m.
                 if int timestamp < fiveMinutesAgo then AList.delete key m else m) c c)"

text \<open>Several runs of the timer, at the given clock readings, in order.\<close>

definition sweeps :: "nat list \<Rightarrow> cache \<Rightarrow> cache" where
  "sweeps ts c = fold (\<lambda>t m. sweep m t) ts c"

text \<open>The four identifier derivations of lib/socket.js.\<close>

definition notificationId :: "jsval \<Rightarrow> string \<Rightarrow> nat \<Rightarrow> string" where
  "notificationId targetUserId message now =
     ''user-'' @ to_str targetUserId @ ''-'' @ show_nat now @ ''-'' @ message_part message"

definition broadcastId :: "string \<Rightarrow> nat \<Rightarrow> string" where
  "broadcastId message now = ''broadcast-'' @ show_nat now @ ''-'' @ message_part message"

definition server_notificationId :: "jsval \<Rightarrow> string \<Rightarrow> nat \<Rightarrow> string" where
  "server_notificationId userId message now =
     ''server-'' @ to_str userId @ ''-'' @ show_nat now @ ''-'' @ message_part message"

definition server_broadcastId :: "string \<Rightarrow> nat \<Rightarrow> string" where
  "server_broadcastId message now =
     ''server-broadcast-'' @ show_nat now @ ''-'' @ message_part message"

section \<open>The room registry of lib/socket.js\<close>

type_synonym sid = string
type_synonym room = string

text \<open>
  Socket.IO's in-memory adapter keeps \<^verbatim>\<open>rooms: Map<Room, Set<SocketId>>\<close>.
  \<^verbatim>\<open>socket.join(room)\<close> creates the set when the room is new and adds the socket's
  identifier; \<^verbatim>\<open>socket.leave(room)\<close> removes the identifier and deletes the room once
  its set is empty.
\<close>

type_synonym rooms = "(room \<times> sid list) list"

definition adapter_add :: "sid \<Rightarrow> room \<Rightarrow> rooms \<Rightarrow> rooms" where
  "adapter_add s r rs =
     (case map_of rs r of
        None \<Rightarrow> AList.update r [s] rs
      | Some ms \<Rightarrow> AList.update r (if s \<in> set ms then ms else ms @ [s]) rs)"

definition adapter_del :: "sid \<Rightarrow> room \<Rightarrow> rooms \<Rightarrow> rooms" where
  "adapter_del s r rs =
     (case map_of rs r of
        None \<Rightarrow> rs
      | Some ms \<Rightarrow>
          (let ms' = removeAll s ms
           in if ms' = [] then AList.delete r rs else AList.update r ms' rs))"

text \<open>\<^verbatim>\<open>io.sockets.adapter.rooms.get(room)\<close>, with the empty list for \<^verbatim>\<open>undefined\<close>.\<close>

definition room_sockets :: "rooms \<Rightarrow> room \<Rightarrow> sid list" where
  "room_sockets rs r = (case map_of rs r of None \<Rightarrow> [] | Some ms \<Rightarrow> ms)"

definition in_room :: "rooms \<Rightarrow> room \<Rightarrow> sid \<Rightarrow> bool" where
  "in_room rs r s = (s \<in> set (room_sockets rs r))"

text \<open>
  The module state: \<^verbatim>\<open>io\<close> (set by \<^verbatim>\<open>initSocket\<close>; \<open>io_ready\<close> is its truthiness,
  \<open>clientsCount\<close> is \<^verbatim>\<open>io.engine.clientsCount\<close>, \<open>sockets\<close> the connected sockets that
  \<^verbatim>\<open>io.emit\<close> reaches, \<open>rooms\<close> the adapter's map), \<^verbatim>\<open>sentNotifications\<close> and
  \<^verbatim>\<open>userSockets\<close>.
\<close>

record relay =
  io_ready :: bool
  clientsCount :: nat
  sockets :: "sid list"
  rooms :: rooms
  sentNotifications :: cache
  userSockets :: "(jsval \<times> sid) list"

text \<open>
  A connected socket with the two properties the handlers attach to it. On connection
  \<^verbatim>\<open>socket.userId = null\<close>; \<^verbatim>\<open>socket.companyId\<close> is not set.
\<close>

record socket =
  sock_id :: sid
  sock_userId :: jsval
  sock_companyId :: jsval

definition new_socket :: "sid \<Rightarrow> socket" where
  "new_socket s = \<lparr>sock_id = s, sock_userId = JNull, sock_companyId = JUndefined\<rparr>"

record notification =
  n_id :: string
  n_message :: string
  n_type :: jsval
  n_title :: jsval
  n_timestamp :: nat
  n_broadcast :: bool
  n_from :: jsval
  n_read_at :: jsval

record api_notification =
  an_message :: jsval
  an_type :: jsval
  an_timestamp :: nat
  an_id :: nat
  an_from :: string

text \<open>
  The events the modelled paths emit, with their payload fields in source order.
  Timestamps carry the clock reading in milliseconds instead of its ISO rendering; each
  handler run reads the clock once.
\<close>

datatype event =
    JoinError string
  | JoinedRoom jsval sid room nat
  | JoinedCompanyRoom jsval jsval sid room nat
  | JoinedWaiterRoom bool jsval
  | NotificationError string "string option" "jsval option" nat
  | NotificationSent jsval bool nat room string nat
  | Notification notification
  | ApiNotification api_notification

type_synonym delivery = "sid \<times> event"

text \<open>\<^verbatim>\<open>socket.emit(ev)\<close>, \<^verbatim>\<open>io.to(room).emit(ev)\<close> and \<^verbatim>\<open>io.emit(ev)\<close>\<close>

definition socket_emit :: "socket \<Rightarrow> event \<Rightarrow> delivery list" where
  "socket_emit sock ev = [(sock_id sock, ev)]"

definition emit_to_room :: "relay \<Rightarrow> room \<Rightarrow> event \<Rightarrow> delivery list" where
  "emit_to_room st r ev = map (\<lambda>s. (s, ev)) (room_sockets (rooms st) r)"

definition emit_all :: "relay \<Rightarrow> event \<Rightarrow> delivery list" where
  "emit_all st ev = map (\<lambda>s. (s, ev)) (sockets st)"

definition user_room :: "jsval \<Rightarrow> room" where
  "user_room userId = ''user-'' @ to_str userId"

definition company_room :: "jsval \<Rightarrow> room" where
  "company_room companyId = ''company-'' @ to_str companyId"

definition waiter_room :: "jsval \<Rightarrow> room" where
  "waiter_room companyId = ''waiters-'' @ to_str companyId"

subsection \<open>Scope-join handlers\<close>

definition join_user_room :: "jsval \<Rightarrow> nat \<Rightarrow> socket \<Rightarrow> relay \<Rightarrow> socket \<times> relay \<times> delivery list" where
  "join_user_room userId now sock st =
     (if \<not> truthy userId then
        (sock, st, socket_emit sock (JoinError ''User ID is required''))
      else
        let st1 = (if truthy (sock_userId sock)
                   then st\<lparr>rooms := adapter_del (sock_id sock) (user_room (sock_userId sock)) (rooms st),
                           userSockets := AList.delete (sock_userId sock) (userSockets st)\<rparr>
                   else st);
            st2 = st1\<lparr>rooms := adapter_add (sock_id sock) (user_room userId) (rooms st1)\<rparr>;
            sock' = sock\<lparr>sock_userId := userId\<rparr>;
            st3 = st2\<lparr>userSockets := AList.update userId (sock_id sock) (userSockets st2)\<rparr>
        in (sock', st3,
            socket_emit sock (JoinedRoom userId (sock_id sock) (user_room userId) now)))"

record company_join =
  cj_userId :: jsval
  cj_companyId :: jsval

text \<open>
  The handler begins with \<^verbatim>\<open>const { userId, companyId } = data\<close>, before its guard
  and outside any \<^verbatim>\<open>try\<close>. A request that carries an object is \<open>Some\<close> of its two
  fields (a field the object lacks is \<^verbatim>\<open>undefined\<close>); a request with no payload, or
  with \<^verbatim>\<open>null\<close>, is \<open>None\<close>: the destructuring raises a TypeError and the handler
  emits nothing.
\<close>

definition join_company_room :: "company_join option \<Rightarrow> nat \<Rightarrow> socket \<Rightarrow> relay
    \<Rightarrow> error + socket \<times> relay \<times> delivery list" where
  "join_company_room payload now sock st =
     (case payload of
        None \<Rightarrow> Inl TypeError
      | Some data \<Rightarrow>
          (let userId = cj_userId data; companyId = cj_companyId data
           in if \<not> truthy userId \<or> \<not> truthy companyId then
                Inr (sock, st, socket_emit sock (JoinError ''User ID and Company ID are required''))
              else
                let st1 = (if truthy (sock_companyId sock)
                           then st\<lparr>rooms := adapter_del (sock_id sock)
                                              (company_room (sock_companyId sock)) (rooms st)\<rparr>
                           else st);
                    companyRoom = company_room companyId;
                    st2 = st1\<lparr>rooms := adapter_add (sock_id sock) companyRoom (rooms st1)\<rparr>;
                    sock' = sock\<lparr>sock_companyId := companyId\<rparr>
                in Inr (sock', st2,
                        socket_emit sock
                          (JoinedCompanyRoom userId companyId (sock_id sock) companyRoom now))))"

definition join_waiter_room :: "jsval \<Rightarrow> socket \<Rightarrow> relay \<Rightarrow> socket \<times> relay \<times> delivery list" where
  "join_waiter_room companyId sock st =
     (let st1 = (if truthy companyId
                 then st\<lparr>rooms := adapter_add (sock_id sock) (waiter_room companyId) (rooms st)\<rparr>
                 else st);
          st2 = st1\<lparr>rooms := adapter_add (sock_id sock) ''waiters'' (rooms st1)\<rparr>
      in (sock, st2, socket_emit sock (JoinedWaiterRoom True companyId)))"

text \<open>A connection sending one \<^verbatim>\<open>join-user-room\<close> request after the other.\<close>

fun join_user_rooms :: "(jsval \<times> nat) list \<Rightarrow> socket \<Rightarrow> relay \<Rightarrow> socket \<times> relay" where
  "join_user_rooms [] sock st = (sock, st)"
| "join_user_rooms ((userId, now) # reqs) sock st =
     (case join_user_room userId now sock st of
        (sock', st', _) \<Rightarrow> join_user_rooms reqs sock' st')"

text \<open>The identifier of the last request of a sequence that was not rejected.\<close>

fun last_joined :: "(jsval \<times> nat) list \<Rightarrow> jsval option" where
  "last_joined [] = None"
| "last_joined ((userId, now) # reqs) =
     (case last_joined reqs of
        Some u \<Rightarrow> Some u
      | None \<Rightarrow> if truthy userId then Some userId else None)"

subsection \<open>Observing a connection's user scope\<close>

definition is_user_room :: "room \<Rightarrow> bool" where
  "is_user_room r = (take 5 r = ''user-'')"

text \<open>The user rooms a socket is a member of, and the keys of \<^verbatim>\<open>userSockets\<close> mapped to it.\<close>

definition user_scopes :: "relay \<Rightarrow> sid \<Rightarrow> room list" where
  "user_scopes st s = filter (\<lambda>r. is_user_room r \<and> in_room (rooms st) r s) (map fst (rooms st))"

definition user_keys :: "relay \<Rightarrow> sid \<Rightarrow> jsval list" where
  "user_keys st s = filter (\<lambda>k. map_of (userSockets st) k = Some s) (map fst (userSockets st))"

text \<open>
  What the \<^verbatim>\<open>join-user-room\<close> handler maintains between a socket's \<^verbatim>\<open>userId\<close>
  property, its user rooms and its entries of \<^verbatim>\<open>userSockets\<close>.
\<close>

definition user_scope_inv :: "socket \<Rightarrow> relay \<Rightarrow> bool" where
  "user_scope_inv sock st \<longleftrightarrow>
     {r. is_user_room r \<and> in_room (rooms st) r (sock_id sock)} =
       (if truthy (sock_userId sock) then {user_room (sock_userId sock)} else {}) \<and>
     {k. map_of (userSockets st) k = Some (sock_id sock)} =
       (if truthy (sock_userId sock) then {sock_userId sock} else {})"

subsection \<open>The \<^verbatim>\<open>send-notification\<close> handler\<close>

record send_data =
  sd_targetUserId :: jsval
  sd_message :: jsval
  sd_type :: jsval
  sd_title :: jsval

text \<open>A destructuring or parameter default: \<^verbatim>\<open>type = 'info'\<close> applies to \<^verbatim>\<open>undefined\<close> only.\<close>

definition default_to :: "jsval \<Rightarrow> jsval \<Rightarrow> jsval" where
  "default_to d v = (if v = JUndefined then d else v)"

text \<open>
  The handler body runs inside \<^verbatim>\<open>try { ... } catch (error)\<close>, whose handler emits
  \<^verbatim>\<open>notification-error\<close> with the error's message. A truthy message that is not a
  string has no \<^verbatim>\<open>slice\<close> method: the call raises a TypeError, which lands there.
\<close>

definition send_notification :: "send_data \<Rightarrow> nat \<Rightarrow> socket \<Rightarrow> relay \<Rightarrow> relay \<times> delivery list" where
  "send_notification data now sock st =
     (let targetUserId = sd_targetUserId data;
          message = sd_message data;
          type = default_to (JStr ''info'') (sd_type data);
          title = sd_title data
      in if \<not> truthy targetUserId \<or> \<not> truthy message then
           (st, socket_emit sock
                  (NotificationError ''Missing targetUserId or message'' None None now))
         else
           (case message of
              JStr m \<Rightarrow>
                (let nid = notificationId targetUserId m now
                 in case admit (sentNotifications st) nid now of
                      (False, _) \<Rightarrow>
                        (st, socket_emit sock
                               (NotificationError ''Duplicate notification prevented''
                                  (Some nid) None now))
                    | (True, c') \<Rightarrow>
                        (let n = \<lparr>n_id = nid, n_message = m, n_type = type, n_title = title,
                                  n_timestamp = now, n_broadcast = False,
                                  n_from = js_or (sock_userId sock) (JStr ''socket-server''),
                                  n_read_at = JNull\<rparr>;
                             st' = st\<lparr>sentNotifications := c'\<rparr>;
                             roomName = user_room targetUserId;
                             roomSockets = room_sockets (rooms st') roomName
                         in if length roomSockets > 0 then
                              (st', emit_to_room st' roomName (Notification n) @
                                    socket_emit sock
                                      (NotificationSent targetUserId True now roomName nid
                                         (length roomSockets)))
                            else
                              (st', socket_emit sock
                                      (NotificationError ''Target user not connected''
                                         None (Some targetUserId) now))))
            | _ \<Rightarrow>
                (st, socket_emit sock
                       (NotificationError ''message.slice is not a function'' None None now))))"

subsection \<open>The exported server-side functions\<close>

record server_handle =
  sh_clientsCount :: nat
  sh_rooms :: rooms

definition getSocket :: "relay \<Rightarrow> error + server_handle" where
  "getSocket st =
     (if \<not> io_ready st then Inl (Error ''Socket.io not initialized'')
      else Inr \<lparr>sh_clientsCount = clientsCount st, sh_rooms = rooms st\<rparr>)"

record stats_details =
  userCount :: nat
  room_names :: "room list"
  notificationCache :: nat
  connectedUsers :: "jsval list"
  stats_timestamp :: nat

record stats =
  connected :: bool
  stats_clientsCount :: nat
  details :: "stats_details option"

text \<open>
  \<open>getConnectionStats\<close> has no \<^verbatim>\<open>throw\<close> and calls nothing that raises; it is given the
  result type of its siblings so that this can be stated.
\<close>

definition getConnectionStats :: "nat \<Rightarrow> relay \<Rightarrow> error + stats" where
  "getConnectionStats now st =
     (if \<not> io_ready st then
        Inr \<lparr>connected = False, stats_clientsCount = 0, details = None\<rparr>
      else
        Inr \<lparr>connected = True, stats_clientsCount = clientsCount st,
             details = Some \<lparr>userCount = length (userSockets st),
                             room_names = map fst (rooms st),
                             notificationCache = length (sentNotifications st),
                             connectedUsers = map fst (userSockets st),
                             stats_timestamp = now\<rparr>\<rparr>)"

text \<open>
  \<^verbatim>\<open>sendToUser(userId, message, type = 'info', title = null)\<close>. There is no
  \<^verbatim>\<open>try\<close> here: \<^verbatim>\<open>message.slice\<close> on a value that is not a string raises a TypeError
  to the caller.
  The result is \<^verbatim>\<open>null\<close> (\<open>None\<close>) for a duplicate and the notification otherwise.
\<close>

definition sendToUser :: "jsval \<Rightarrow> jsval \<Rightarrow> jsval \<Rightarrow> jsval \<Rightarrow> nat \<Rightarrow> relay
    \<Rightarrow> error + (notification option \<times> relay \<times> delivery list)" where
  "sendToUser userId message type0 title0 now st =
     (let type = default_to (JStr ''info'') type0;
          title = default_to JNull title0
      in if \<not> io_ready st then Inl (Error ''Socket.io not initialized'')
         else
           (case message of
              JStr m \<Rightarrow>
                (let nid = server_notificationId userId m now
                 in case admit (sentNotifications st) nid now of
                      (False, _) \<Rightarrow> Inr (None, st, [])
                    | (True, c') \<Rightarrow>
                        (let n = \<lparr>n_id = nid, n_message = m, n_type = type, n_title = title,
                                  n_timestamp = now, n_broadcast = False,
                                  n_from = JStr ''server-direct'', n_read_at = JNull\<rparr>;
                             st' = st\<lparr>sentNotifications := c'\<rparr>;
                             roomName = user_room userId;
                             roomSockets = room_sockets (rooms st') roomName
                         in if length roomSockets > 0 then
                              Inr (Some n, st', emit_to_room st' roomName (Notification n))
                            else Inr (Some n, st', [])))
            | _ \<Rightarrow> Inl TypeError))"

definition broadcastToAll :: "jsval \<Rightarrow> jsval \<Rightarrow> jsval \<Rightarrow> nat \<Rightarrow> relay
    \<Rightarrow> error + (notification option \<times> relay \<times> delivery list)" where
  "broadcastToAll message type0 title0 now st =
     (let type = default_to (JStr ''info'') type0;
          title = default_to JNull title0
      in if \<not> io_ready st then Inl (Error ''Socket.io not initialized'')
         else
           (case message of
              JStr m \<Rightarrow>
                (let bid = server_broadcastId m now
                 in case admit (sentNotifications st) bid now of
                      (False, _) \<Rightarrow> Inr (None, st, [])
                    | (True, c') \<Rightarrow>
                        (let n = \<lparr>n_id = bid, n_message = m, n_type = type, n_title = title,
                                  n_timestamp = now, n_broadcast = True,
                                  n_from = JStr ''server-direct'', n_read_at = JNull\<rparr>;
                             st' = st\<lparr>sentNotifications := c'\<rparr>
                         in Inr (Some n, st', emit_all st' (Notification n))))
            | _ \<Rightarrow> Inl TypeError))"

subsection \<open>The HTTP route \<^verbatim>\<open>/api/notifications/send\<close> of server.js\<close>

record api_send_data =
  api_userId :: jsval
  api_message :: jsval
  api_type :: jsval

text \<open>
  A response is its status code and its JSON body: an error body with its \<^verbatim>\<open>error\<close>
  text, or the body of the 200 answer (\<^verbatim>\<open>success\<close>, \<^verbatim>\<open>message\<close>, \<^verbatim>\<open>targetUser\<close>,
  \<^verbatim>\<open>notification\<close>, \<^verbatim>\<open>connectedClients\<close>).
\<close>

datatype http_body =
    ErrorBody string
  | SendBody bool string jsval api_notification nat

text \<open>
  The request is its method and what \<^verbatim>\<open>parseJsonBody\<close> gave: the parse error's message
  or the parsed object. server.js holds \<^verbatim>\<open>const io = initSocket(httpServer)\<close>, so the
  route runs on an initialised relay; it does not touch the cache.
\<close>

definition api_notifications_send :: "string \<Rightarrow> string + api_send_data \<Rightarrow> nat \<Rightarrow> relay
    \<Rightarrow> (nat \<times> http_body) \<times> delivery list" where
  "api_notifications_send method body now st =
     (if method \<noteq> ''POST'' then ((405, ErrorBody ''Method not allowed''), [])
      else
        (case body of
           Inl parseError \<Rightarrow> ((400, ErrorBody ''Invalid JSON format''), [])
         | Inr sendData \<Rightarrow>
             (let notificationUserId = api_userId sendData;
                  message = api_message sendData;
                  type = default_to (JStr ''info'') (api_type sendData)
              in if \<not> truthy notificationUserId \<or> \<not> truthy message then
                   ((400, ErrorBody ''Missing required fields: userId, message''), [])
                 else
                   (let notification = \<lparr>an_message = message, an_type = type,
                                         an_timestamp = now, an_id = now, an_from = ''api''\<rparr>
                    in ((200, SendBody True ''Notification sent'' notificationUserId
                                notification (clientsCount st)),
                        emit_to_room st (user_room notificationUserId)
                          (ApiNotification notification))))))"

section \<open>The subscription stores\<close>

type_synonym subscription = string

text \<open>
  User identifiers reach the stores as strings (the tests pass strings and the MySQL
  column is \<^verbatim>\<open>varchar(255)\<close>); a subscription is the opaque JSON text of the push
  endpoint descriptor.
\<close>

subsection \<open>lib/database.js: the JSON file\<close>

record sub_record =
  sr_userId :: string
  sr_subscription :: subscription
  sr_createdAt :: nat

text \<open>
  Every function reads the file, works on \<^verbatim>\<open>db.subscriptions\<close> and writes the file
  back; the file is the list. File-system failures are not modelled. \<open>addSubscription\<close>
  returns the subscription it was given (a second copy of the module returns the stored
  record instead; what it stores is the same).
\<close>

type_synonym json_db = "sub_record list"


definition json_getSubscription :: "string \<Rightarrow> json_db \<Rightarrow> sub_record option" where
  "json_getSubscription userId db = find (\<lambda>sub. sr_userId sub = userId) db"


subsection \<open>lib/mysql-database.js: the table \<^verbatim>\<open>socket_subscriptions\<close>\<close>

record mysql_row =
  row_id :: nat
  user_id :: string
  subscription_data :: subscription
  created_at :: nat
  updated_at :: nat

text \<open>
  The server is outside the program. Each round trip to it (obtaining the connection,
  executing one statement) either answers or raises; \<open>net k\<close> tells whether the
  \<open>k\<close>-th round trip answers, and \<open>trips\<close> counts the round trips made so far.

  The schema declares the table \<^verbatim>\<open>COLLATE=utf8mb4_unicode_ci\<close>, and \<^verbatim>\<open>user_id\<close> is
  a \<^verbatim>\<open>varchar\<close> column with a unique key: the server compares \<^verbatim>\<open>user_id = ?\<close> by
  that collation, which takes identifiers differing in letter case or in trailing
  spaces for equal. \<open>collation\<close> is the table's collation key: two identifiers are
  equal for the server exactly when their keys are. It is a property of the table that
  no statement of the program changes, and everything below holds for every key
  function.
\<close>

record mysql_db =
  table_rows :: "mysql_row list"
  auto_increment :: nat
  trips :: nat
  collation :: "string \<Rightarrow> string"

text \<open>\<^verbatim>\<open>user_id = ?\<close> as the server decides it.\<close>

definition same_user :: "mysql_db \<Rightarrow> string \<Rightarrow> string \<Rightarrow> bool" where
  "same_user m a b = (collation m a = collation m b)"

definition round_trip :: "(nat \<Rightarrow> bool) \<Rightarrow> mysql_db \<Rightarrow> bool \<times> mysql_db" where
  "round_trip net m = (net (trips m), m\<lparr>trips := Suc (trips m)\<rparr>)"

text \<open>\<^verbatim>\<open>getConnection\<close>: \<open>False\<close> stands for the rethrown error.\<close>

definition getConnection :: "(nat \<Rightarrow> bool) \<Rightarrow> mysql_db \<Rightarrow> bool \<times> mysql_db" where
  "getConnection net m = round_trip net m"

text \<open>\<^verbatim>\<open>testConnection\<close> catches every error and answers with \<^verbatim>\<open>success\<close>.\<close>

definition testConnection :: "(nat \<Rightarrow> bool) \<Rightarrow> mysql_db \<Rightarrow> bool \<times> mysql_db" where
  "testConnection net m =
     (case getConnection net m of
        (False, m1) \<Rightarrow> (False, m1)
      | (True, m1) \<Rightarrow>
          (case round_trip net m1 of
             (False, m2) \<Rightarrow> (False, m2)
           | (True, m2) \<Rightarrow> (True, m2)))"

record mysql_result =
  res_id :: nat
  res_userId :: string
  res_subscription :: subscription
  res_createdAt :: nat

text \<open>
  \<^verbatim>\<open>
  DELETE FROM socket_subscriptions WHERE user_id = ?
  INSERT INTO socket_subscriptions (user_id, subscription_data, created_at, updated_at)
    VALUES (?, ?, NOW(), NOW())
  \<close>
  \<open>None\<close> is the rethrown error.
\<close>

definition mysql_addSubscription :: "(nat \<Rightarrow> bool) \<Rightarrow> string \<Rightarrow> subscription \<Rightarrow> nat \<Rightarrow> mysql_db
    \<Rightarrow> mysql_result option \<times> mysql_db" where
  "mysql_addSubscription net userId subscription now m =
     (case getConnection net m of
        (False, m1) \<Rightarrow> (None, m1)
      | (True, m1) \<Rightarrow>
          (case round_trip net m1 of
             (False, m2) \<Rightarrow> (None, m2)
           | (True, m2) \<Rightarrow>
               (let m3 = m2\<lparr>table_rows := filter (\<lambda>r. \<not> same_user m2 (user_id r) userId)
                                                (table_rows m2)\<rparr>
                in case round_trip net m3 of
                     (False, m4) \<Rightarrow> (None, m4)
                   | (True, m4) \<Rightarrow>
                       (let insertId = auto_increment m4;
                            m5 = m4\<lparr>table_rows := table_rows m4 @
                                       [\<lparr>row_id = insertId, user_id = userId,
                                         subscription_data = subscription,
                                         created_at = now, updated_at = now\<rparr>],
                                     auto_increment := Suc insertId\<rparr>
                        in (Some \<lparr>res_id = insertId, res_userId = userId,
                                  res_subscription = subscription, res_createdAt = now\<rparr>,
                            m5)))))"

text \<open>\<^verbatim>\<open>SELECT * FROM socket_subscriptions WHERE user_id = ?\<close>, then \<^verbatim>\<open>rows[0]\<close> or \<^verbatim>\<open>null\<close>.\<close>

definition mysql_getSubscription :: "(nat \<Rightarrow> bool) \<Rightarrow> string \<Rightarrow> mysql_db
    \<Rightarrow> sub_record option option \<times> mysql_db" where
  "mysql_getSubscription net userId m =
     (case getConnection net m of
        (False, m1) \<Rightarrow> (None, m1)
      | (True, m1) \<Rightarrow>
          (case round_trip net m1 of
             (False, m2) \<Rightarrow> (None, m2)
           | (True, m2) \<Rightarrow>
               (case filter (\<lambda>r. same_user m2 (user_id r) userId) (table_rows m2) of
                  [] \<Rightarrow> (Some None, m2)
                | r # _ \<Rightarrow>
                    (Some (Some \<lparr>sr_userId = user_id r, sr_subscription = subscription_data r,
                                 sr_createdAt = created_at r\<rparr>), m2))))"

text \<open>The result is \<^verbatim>\<open>affectedRows > 0\<close>; \<open>None\<close> is the rethrown error.\<close>

definition mysql_removeSubscription :: "(nat \<Rightarrow> bool) \<Rightarrow> string \<Rightarrow> mysql_db \<Rightarrow> bool option \<times> mysql_db" where
  "mysql_removeSubscription net userId m =
     (case getConnection net m of
        (False, m1) \<Rightarrow> (None, m1)
      | (True, m1) \<Rightarrow>
          (case round_trip net m1 of
             (False, m2) \<Rightarrow> (None, m2)
           | (True, m2) \<Rightarrow>
               (let affected = filter (\<lambda>r. same_user m2 (user_id r) userId) (table_rows m2);
                    m3 = m2\<lparr>table_rows := filter (\<lambda>r. \<not> same_user m2 (user_id r) userId)
                                                (table_rows m2)\<rparr>
                in (Some (length affected > 0), m3))))"

subsection \<open>lib/hybrid-database.js\<close>

text \<open>
  A queue entry is \<^verbatim>\<open>{ type, userId, subscription, timestamp }\<close> with \<^verbatim>\<open>type\<close> either
  \<^verbatim>\<open>'add'\<close> or \<^verbatim>\<open>'remove'\<close> (whose \<^verbatim>\<open>subscription\<close> is \<^verbatim>\<open>null\<close>).
\<close>

datatype operation =
    OpAdd string subscription nat
  | OpRemove string nat

record hybrid =
  isOnline :: bool
  syncQueue :: "operation list"
  jsonDB :: json_db
  mysqlDB :: mysql_db


text \<open>One turn of the replay loop; a raised error is caught and logged.\<close>

fun replay :: "(nat \<Rightarrow> bool) \<Rightarrow> nat \<Rightarrow> operation \<Rightarrow> mysql_db \<Rightarrow> mysql_db" where
  "replay net now (OpAdd userId subscription _) m =
     snd (mysql_addSubscription net userId subscription now m)"
| "replay net now (OpRemove userId _) m =
     snd (mysql_removeSubscription net userId m)"

definition syncOfflineData :: "(nat \<Rightarrow> bool) \<Rightarrow> nat \<Rightarrow> hybrid \<Rightarrow> hybrid" where
  "syncOfflineData net now st =
     (if \<not> isOnline st \<or> length (syncQueue st) = 0 then st
      else
        let m' = fold (replay net now) (syncQueue st) (mysqlDB st)
        in st\<lparr>mysqlDB := m', syncQueue := []\<rparr>)"

definition checkMySQLHealth :: "(nat \<Rightarrow> bool) \<Rightarrow> nat \<Rightarrow> hybrid \<Rightarrow> bool \<times> hybrid" where
  "checkMySQLHealth net now st =
     (case testConnection net (mysqlDB st) of
        (success, m1) \<Rightarrow>
          (let wasOffline = \<not> isOnline st;
               st1 = st\<lparr>mysqlDB := m1, isOnline := success\<rparr>;
               st2 = (if wasOffline \<and> isOnline st1 then syncOfflineData net now st1 else st1)
           in (isOnline st2, st2)))"





definition getSubscription :: "(nat \<Rightarrow> bool) \<Rightarrow> string \<Rightarrow> nat \<Rightarrow> hybrid \<Rightarrow> sub_record option \<times> hybrid" where
  "getSubscription net userId now st =
     (case checkMySQLHealth net now st of
        (True, st2) \<Rightarrow>
          (case mysql_getSubscription net userId (mysqlDB st2) of
             (Some (Some mysqlResult), m) \<Rightarrow> (Some mysqlResult, st2\<lparr>mysqlDB := m\<rparr>)
           | (_, m) \<Rightarrow> (json_getSubscription userId (jsonDB st2), st2\<lparr>mysqlDB := m\<rparr>))
      | (False, st2) \<Rightarrow> (json_getSubscription userId (jsonDB st2), st2))"





definition mysql_lookup :: "mysql_db \<Rightarrow> string \<Rightarrow> subscription option" where
  "mysql_lookup m userId =
     (case filter (\<lambda>r. same_user m (user_id r) userId) (table_rows m) of
        [] \<Rightarrow> None
      | r # _ \<Rightarrow> Some (subscription_data r))"


subsection \<open>Observing the stores\<close>






text \<open>Two servers: one that always answers, one that misses the first two round trips.\<close>

text \<open>
  A collation key that ignores letter case and trailing spaces, as the schema's
  collation does on identifiers of letters and digits.
\<close>

definition lower_char :: "char \<Rightarrow> char" where
  "lower_char c =
     (case map_of (zip ''ABCDEFGHIJKLMNOPQRSTUVWXYZ'' ''abcdefghijklmnopqrstuvwxyz'') c of
        None \<Rightarrow> c
      | Some l \<Rightarrow> l)"

definition ci_key :: "string \<Rightarrow> string" where
  "ci_key s = map lower_char (rev (dropWhile (\<lambda>c. c = CHR '' '') (rev s)))"

definition always_up :: "nat \<Rightarrow> bool" where
  "always_up k = True"


section \<open>Auxiliary definitions\<close>

text \<open>Reading a decimal numeral back, to show that the rendering loses nothing.\<close>

definition read_nat :: "string \<Rightarrow> nat" where
  "read_nat s = foldl (\<lambda>acc c. 10 * acc + (of_char c - 48)) 0 s"

section \<open>Decimal rendering is injective\<close>

lemma digit_val: "d < 10 \<Longrightarrow> (of_char (digit_char d) :: nat) = 48 + d"
  by (simp add: digit_char_def)

lemma read_show_nat: "read_nat (show_nat n) = n"
proof (induction n rule: show_nat.induct)
  case (1 n)
  show ?case
  proof (cases "n < 10")
    case True
    then show ?thesis
      by (subst show_nat.simps) (simp add: read_nat_def digit_val)
  next
    case False
    with 1 have "read_nat (show_nat (n div 10)) = n div 10" by simp
    with False show ?thesis
      by (subst show_nat.simps) (simp add: read_nat_def digit_val)
  qed
qed

lemma show_nat_inj: "show_nat a = show_nat b \<longleftrightarrow> a = b"
  by (metis read_show_nat)

section \<open>The deduplication cache\<close>

lemma has_iff_key: "has c k \<longleftrightarrow> k \<in> fst ` set c"
  by (simp add: has_def map_of_eq_None_iff)

lemma update_absent: "k \<notin> fst ` set c \<Longrightarrow> AList.update k v c = c @ [(k, v)]"
  by (induction c) auto

lemma admit_fresh: "\<not> has c F \<Longrightarrow> admit c F now = (True, AList.update F now c)"
  by (simp add: admit_def)

lemma fold_expire_subset:
  "set (fold (\<lambda>(key, timestamp) m. if P timestamp then AList.delete key m else m) xs m) \<subseteq> set m"
proof (induction xs arbitrary: m)
  case Nil
  then show ?case by simp
next
  case (Cons x xs)
  obtain k t where x: "x = (k, t)" by (cases x)
  have "set (AList.delete k m) \<subseteq> set m" by (auto simp: AList.delete_eq)
  with Cons[of "AList.delete k m"] Cons[of m] x show ?case by auto
qed

lemma fold_expire_keys:
  "k \<in> fst ` set (fold (\<lambda>(key, timestamp) m. if P timestamp then AList.delete key m else m) xs m)
     \<longleftrightarrow> k \<in> fst ` set m \<and> \<not> (\<exists>t. (k, t) \<in> set xs \<and> P t)"
proof (induction xs arbitrary: m)
  case Nil
  then show ?case by simp
next
  case (Cons x xs)
  obtain k' t' where x: "x = (k', t')" by (cases x)
  have del: "k \<in> fst ` set (AList.delete k' m) \<longleftrightarrow> k \<in> fst ` set m \<and> k \<noteq> k'"
    by (auto simp: AList.delete_eq)
  show ?case
    using Cons[of "AList.delete k' m"] Cons[of m] del x by auto
qed

lemma sweep_subset: "set (sweep c now) \<subseteq> set c"
  unfolding sweep_def Let_def by (rule fold_expire_subset)

text \<open>The timer removes a key exactly when its entry is more than 300000 ms old.\<close>

lemma has_sweep:
  "has (sweep c now) k \<longleftrightarrow> has c k \<and> \<not> (\<exists>t. (k, t) \<in> set c \<and> t + 300000 < now)"
proof -
  have "\<And>t. (int t < int now - 5 * 60 * 1000) = (t + 300000 < now)" by auto
  then show ?thesis
    unfolding sweep_def Let_def has_iff_key fold_expire_keys by simp
qed

lemma has_sweeps:
  "(\<And>t. (k, t) \<in> set c \<Longrightarrow> t = t0) \<Longrightarrow>
   has (sweeps ts c) k \<longleftrightarrow> has c k \<and> \<not> (\<exists>t \<in> set ts. t0 + 300000 < t)"
proof (induction ts arbitrary: c)
  case Nil
  then show ?case by (simp add: sweeps_def)
next
  case (Cons a ts)
  have uniq: "\<And>t. (k, t) \<in> set (sweep c a) \<Longrightarrow> t = t0"
    using Cons.prems sweep_subset by blast
  have step: "has (sweep c a) k \<longleftrightarrow> has c k \<and> \<not> t0 + 300000 < a"
    unfolding has_sweep using Cons.prems by (auto simp: has_iff_key)
  have "sweeps (a # ts) c = sweeps ts (sweep c a)" by (simp add: sweeps_def)
  then show ?case using Cons.IH[OF uniq] step by auto
qed

text \<open>
  C2, as amended. The first \<open>admit\<close> of a fingerprint returns true and records it with
  the current time. A later \<open>admit\<close> of the same fingerprint returns false for as long as
  the entry is in the cache, whatever time has passed: the test is \<^verbatim>\<open>has\<close> alone. Only
  the cleanup timer removes the entry, and it does so in a run whose clock reading is
  more than 300000 ms after the recorded time; \<open>admit\<close> returns true again exactly after
  such a run.
\<close>

theorem admit_until_swept:
  assumes "\<not> has c F"
  shows "admit c F t0 = (True, AList.update F t0 c) \<and>
         map_of (AList.update F t0 c) F = Some t0 \<and>
         fst (admit (AList.update F t0 c) F t1) = False \<and>
         fst (admit (sweeps ts (AList.update F t0 c)) F t1) = (\<exists>t \<in> set ts. t0 + 300000 < t)"
proof -
  from assms have absent: "F \<notin> fst ` set c" by (simp add: has_iff_key)
  then have upd: "AList.update F t0 c = c @ [(F, t0)]" by (rule update_absent)
  have uniq: "\<And>t. (F, t) \<in> set (AList.update F t0 c) \<Longrightarrow> t = t0"
    using absent unfolding upd by force
  have present: "has (AList.update F t0 c) F"
    by (simp add: has_def AList.update_conv')
  have "has (sweeps ts (AList.update F t0 c)) F \<longleftrightarrow> \<not> (\<exists>t \<in> set ts. t0 + 300000 < t)"
    using has_sweeps[OF uniq] present by simp
  then have "fst (admit (sweeps ts (AList.update F t0 c)) F t1) = (\<exists>t \<in> set ts. t0 + 300000 < t)"
    by (simp add: admit_def)
  moreover have "fst (admit (AList.update F t0 c) F t1) = False"
    using present by (simp add: admit_def)
  ultimately show ?thesis
    using assms by (simp add: admit_def AList.update_conv')
qed

theorem admit_until_swept_witness:
  "\<not> has [] ''F'' \<and> admit [] ''F'' 0 = (True, [(''F'', 0)]) \<and>
   fst (admit (sweeps [60000, 360000] [(''F'', 0)]) ''F'' 400000)"
  using admit_until_swept[of "[]" "''F''" 0 400000 "[60000, 360000]"] by (simp add: has_def)

text \<open>
  C2 as stated fails: a fingerprint recorded at time 0 is still refused at 330000 ms,
  after the timer has run at 60000, 120000, 180000, 240000 and 300000 ms.
\<close>

theorem admit_after_window_counterexample:
  "\<not> fst (admit (sweeps [60000, 120000, 180000, 240000, 300000] (snd (admit [] ''F'' 0)))
            ''F'' 330000)"
  by (simp add: admit_def sweeps_def sweep_def has_def)

section \<open>Identifier derivation\<close>

text \<open>
  C3, as amended. Each derivation renders the clock reading into the identifier: for a
  fixed target and message, two derivations give the same identifier exactly when they
  read the same millisecond.
\<close>

theorem identifier_depends_on_time:
  "(notificationId u m t = notificationId u m t') = (t = t') \<and>
   (server_notificationId u m t = server_notificationId u m t') = (t = t') \<and>
   (broadcastId m t = broadcastId m t') = (t = t') \<and>
   (server_broadcastId m t = server_broadcastId m t') = (t = t')"
  by (simp add: notificationId_def server_notificationId_def broadcastId_def
      server_broadcastId_def show_nat_inj)

text \<open>C3 as stated fails: one millisecond apart, the same target and message differ.\<close>

theorem identifier_stable_counterexample:
  "notificationId (JStr ''42'') ''hi'' 1000 \<noteq> notificationId (JStr ''42'') ''hi'' 1001"
  by (simp add: notificationId_def show_nat_inj)

section \<open>Sending to a user nobody is connected as\<close>

text \<open>
  C1, as amended. A \<^verbatim>\<open>send-notification\<close> request with a target and a non-empty message,
  whose identifier is not in the cache and whose target room has no member, records the
  identifier and answers the requester with one \<^verbatim>\<open>notification-error\<close> event,
  ``Target user not connected''. The HTTP route answers 200 with \<^verbatim>\<open>success: true\<close>
  whatever the target room holds, and its \<^verbatim>\<open>connectedClients\<close> field is the engine's
  count of all connections.
\<close>

theorem send_to_absent_user:
  "(truthy target \<and> m \<noteq> [] \<and> \<not> has (sentNotifications st) (notificationId target m now) \<and>
    room_sockets (rooms st) (user_room target) = [] \<longrightarrow>
      send_notification \<lparr>sd_targetUserId = target, sd_message = JStr m, sd_type = ty, sd_title = ti\<rparr>
          now sock st =
        (st\<lparr>sentNotifications := AList.update (notificationId target m now) now (sentNotifications st)\<rparr>,
         [(sock_id sock, NotificationError ''Target user not connected'' None (Some target) now)])) \<and>
   (truthy uid \<and> truthy msg \<longrightarrow>
      api_notifications_send ''POST'' (Inr \<lparr>api_userId = uid, api_message = msg, api_type = aty\<rparr>) now st =
        ((200, SendBody True ''Notification sent'' uid
                 \<lparr>an_message = msg, an_type = default_to (JStr ''info'') aty,
                   an_timestamp = now, an_id = now, an_from = ''api''\<rparr> (clientsCount st)),
         map (\<lambda>s. (s, ApiNotification \<lparr>an_message = msg, an_type = default_to (JStr ''info'') aty,
                   an_timestamp = now, an_id = now, an_from = ''api''\<rparr>))
           (room_sockets (rooms st) (user_room uid))))"
  by (simp add: send_notification_def api_notifications_send_def admit_fresh socket_emit_def
      emit_to_room_def Let_def)

theorem send_to_absent_user_witness:
  "truthy (JStr ''42'') \<and> ''hi'' \<noteq> [] \<and>
   \<not> has (sentNotifications \<lparr>io_ready = True, clientsCount = 1, sockets = [''s1''], rooms = [],
            sentNotifications = [], userSockets = []\<rparr>) (notificationId (JStr ''42'') ''hi'' 1000) \<and>
   room_sockets (rooms \<lparr>io_ready = True, clientsCount = 1, sockets = [''s1''], rooms = [],
            sentNotifications = [], userSockets = []\<rparr>) (user_room (JStr ''42'')) = [] \<and>
   snd (send_notification \<lparr>sd_targetUserId = JStr ''42'', sd_message = JStr ''hi'',
                           sd_type = JUndefined, sd_title = JUndefined\<rparr> 1000 (new_socket ''s1'')
         \<lparr>io_ready = True, clientsCount = 1, sockets = [''s1''], rooms = [],
          sentNotifications = [], userSockets = []\<rparr>)
     = [(''s1'', NotificationError ''Target user not connected'' None (Some (JStr ''42'')) 1000)] \<and>
   snd (api_notifications_send ''POST''
          (Inr \<lparr>api_userId = JStr ''42'', api_message = JStr ''hi'', api_type = JUndefined\<rparr>) 1000
         \<lparr>io_ready = True, clientsCount = 1, sockets = [''s1''], rooms = [],
          sentNotifications = [], userSockets = []\<rparr>) = []"
  using send_to_absent_user[of "JStr ''42''" "''hi''"
      "\<lparr>io_ready = True, clientsCount = 1, sockets = [''s1''], rooms = [],
        sentNotifications = [], userSockets = []\<rparr>" 1000 JUndefined JUndefined
      "new_socket ''s1''" "JStr ''42''" "JStr ''hi''" JUndefined]
  by (simp add: has_def room_sockets_def new_socket_def)

text \<open>
  C1 as stated fails on both paths. With one client connected and nobody in room
  \<^verbatim>\<open>user-42\<close>, the socket requester receives an error event and no count; the HTTP
  requester receives a success body whose only count is 1.
\<close>

theorem send_to_absent_user_counterexample:
  "snd (send_notification \<lparr>sd_targetUserId = JStr ''42'', sd_message = JStr ''hi'',
                           sd_type = JUndefined, sd_title = JUndefined\<rparr> 1000 (new_socket ''s1'')
         \<lparr>io_ready = True, clientsCount = 1, sockets = [''s1''], rooms = [],
          sentNotifications = [], userSockets = []\<rparr>)
     = [(''s1'', NotificationError ''Target user not connected'' None (Some (JStr ''42'')) 1000)] \<and>
   fst (api_notifications_send ''POST''
          (Inr \<lparr>api_userId = JStr ''42'', api_message = JStr ''hi'', api_type = JUndefined\<rparr>) 1000
         \<lparr>io_ready = True, clientsCount = 1, sockets = [''s1''], rooms = [],
          sentNotifications = [], userSockets = []\<rparr>)
     = (200, SendBody True ''Notification sent'' (JStr ''42'')
              \<lparr>an_message = JStr ''hi'', an_type = JStr ''info'', an_timestamp = 1000,
                an_id = 1000, an_from = ''api''\<rparr> 1)"
  by (simp add: send_notification_def api_notifications_send_def admit_def has_def socket_emit_def
      emit_to_room_def room_sockets_def user_room_def new_socket_def default_to_def Let_def)

section \<open>The server-side functions\<close>

text \<open>
  C9. A call of \<open>sendToUser\<close> on an initialised relay whose identifier is not in the
  cache records the identifier and returns the notification, whether or not anybody is
  in the target room: the returned notification is built from the arguments only, and
  the deliveries go to the members of the room, none when it is empty.
\<close>

theorem sendToUser_admits_before_resolving:
  assumes "io_ready st"
    and "\<not> has (sentNotifications st) (server_notificationId userId m now)"
  shows "sendToUser userId (JStr m) type title now st =
     Inr (Some \<lparr>n_id = server_notificationId userId m now, n_message = m,
                n_type = default_to (JStr ''info'') type, n_title = default_to JNull title,
                n_timestamp = now, n_broadcast = False,
                n_from = JStr ''server-direct'', n_read_at = JNull\<rparr>,
          st\<lparr>sentNotifications :=
               AList.update (server_notificationId userId m now) now (sentNotifications st)\<rparr>,
          map (\<lambda>s. (s, Notification \<lparr>n_id = server_notificationId userId m now, n_message = m,
                n_type = default_to (JStr ''info'') type, n_title = default_to JNull title,
                n_timestamp = now, n_broadcast = False,
                n_from = JStr ''server-direct'', n_read_at = JNull\<rparr>))
            (room_sockets (rooms st) (user_room userId)))"
  using assms by (simp add: sendToUser_def admit_fresh emit_to_room_def Let_def)

theorem sendToUser_admits_before_resolving_witness:
  "io_ready \<lparr>io_ready = True, clientsCount = 0, sockets = [], rooms = [],
             sentNotifications = [], userSockets = []\<rparr> \<and>
   \<not> has (sentNotifications \<lparr>io_ready = True, clientsCount = 0, sockets = [], rooms = [],
             sentNotifications = [], userSockets = []\<rparr>) (server_notificationId (JNum 7) ''hi'' 5) \<and>
   sendToUser (JNum 7) (JStr ''hi'') JUndefined JUndefined 5
      \<lparr>io_ready = True, clientsCount = 0, sockets = [], rooms = [],
        sentNotifications = [], userSockets = []\<rparr> =
     Inr (Some \<lparr>n_id = server_notificationId (JNum 7) ''hi'' 5, n_message = ''hi'',
                n_type = JStr ''info'', n_title = JNull, n_timestamp = 5, n_broadcast = False,
                n_from = JStr ''server-direct'', n_read_at = JNull\<rparr>,
          \<lparr>io_ready = True, clientsCount = 0, sockets = [], rooms = [],
            sentNotifications = [(server_notificationId (JNum 7) ''hi'' 5, 5)], userSockets = []\<rparr>,
          [])"
  using sendToUser_admits_before_resolving[of
      "\<lparr>io_ready = True, clientsCount = 0, sockets = [], rooms = [],
        sentNotifications = [], userSockets = []\<rparr>" "JNum 7" "''hi''" 5 JUndefined JUndefined]
  by (simp add: has_def room_sockets_def default_to_def)

text \<open>
  C10. \<open>getConnectionStats\<close> always returns; before initialisation it returns
  \<^verbatim>\<open>{ connected: false, clientsCount: 0 }\<close>, where \<open>getSocket\<close>, \<open>sendToUser\<close> and
  \<open>broadcastToAll\<close> raise ``Socket.io not initialized''.
\<close>

theorem getConnectionStats_never_throws:
  "(\<exists>s. getConnectionStats now st = Inr s) \<and>
   (\<not> io_ready st \<longrightarrow>
      getConnectionStats now st =
        Inr \<lparr>connected = False, stats_clientsCount = 0, details = None\<rparr> \<and>
      getSocket st = Inl (Error ''Socket.io not initialized'') \<and>
      sendToUser userId message type title now st = Inl (Error ''Socket.io not initialized'') \<and>
      broadcastToAll message type title now st = Inl (Error ''Socket.io not initialized''))"
  by (simp add: getConnectionStats_def getSocket_def sendToUser_def broadcastToAll_def)

theorem getConnectionStats_never_throws_witness:
  "\<not> io_ready \<lparr>io_ready = False, clientsCount = 0, sockets = [], rooms = [],
               sentNotifications = [], userSockets = []\<rparr> \<and>
   getConnectionStats 5 \<lparr>io_ready = False, clientsCount = 0, sockets = [], rooms = [],
               sentNotifications = [], userSockets = []\<rparr> =
     Inr \<lparr>connected = False, stats_clientsCount = 0, details = None\<rparr> \<and>
   getSocket \<lparr>io_ready = False, clientsCount = 0, sockets = [], rooms = [],
               sentNotifications = [], userSockets = []\<rparr> =
     Inl (Error ''Socket.io not initialized'') \<and>
   sendToUser (JStr ''42'') (JStr ''hi'') JUndefined JUndefined 5
       \<lparr>io_ready = False, clientsCount = 0, sockets = [], rooms = [],
         sentNotifications = [], userSockets = []\<rparr> =
     Inl (Error ''Socket.io not initialized'') \<and>
   broadcastToAll (JStr ''hi'') JUndefined JUndefined 5
       \<lparr>io_ready = False, clientsCount = 0, sockets = [], rooms = [],
         sentNotifications = [], userSockets = []\<rparr> =
     Inl (Error ''Socket.io not initialized'')"
  using getConnectionStats_never_throws[of 5
      "\<lparr>io_ready = False, clientsCount = 0, sockets = [], rooms = [],
        sentNotifications = [], userSockets = []\<rparr>" "JStr ''42''" "JStr ''hi''"
      JUndefined JUndefined]
  by simp

section \<open>The room registry\<close>

lemma room_sockets_add:
  "room_sockets (adapter_add s r rs) r' =
     (if r' = r then (if s \<in> set (room_sockets rs r) then room_sockets rs r else room_sockets rs r @ [s])
      else room_sockets rs r')"
  by (simp add: room_sockets_def adapter_add_def AList.update_conv' split: option.splits)

lemma room_sockets_del:
  "room_sockets (adapter_del s r rs) r' =
     (if r' = r then removeAll s (room_sockets rs r) else room_sockets rs r')"
  by (simp add: room_sockets_def adapter_del_def AList.update_conv' AList.delete_conv' Let_def
      split: option.splits)

lemma in_room_add:
  "in_room (adapter_add s r rs) r' s' \<longleftrightarrow> (r' = r \<and> s' = s) \<or> in_room rs r' s'"
  by (auto simp: in_room_def room_sockets_add)

lemma in_room_del:
  "in_room (adapter_del s r rs) r' s' \<longleftrightarrow> in_room rs r' s' \<and> \<not> (r' = r \<and> s' = s)"
  by (auto simp: in_room_def room_sockets_del)

lemma in_room_key: "in_room rs r s \<Longrightarrow> r \<in> set (map fst rs)"
proof -
  assume "in_room rs r s"
  then obtain ms where "map_of rs r = Some ms"
    by (cases "map_of rs r") (auto simp: in_room_def room_sockets_def)
  then have "(r, ms) \<in> set rs" by (rule map_of_SomeD)
  then show ?thesis by force
qed

lemma mapped_key: "map_of m k = Some v \<Longrightarrow> k \<in> set (map fst m)"
proof -
  assume "map_of m k = Some v"
  then have "(k, v) \<in> set m" by (rule map_of_SomeD)
  then show ?thesis by force
qed

lemma set_user_scopes:
  "set (user_scopes st s) = {r. is_user_room r \<and> in_room (rooms st) r s}"
  using in_room_key by (auto simp: user_scopes_def)

lemma set_user_keys:
  "set (user_keys st s) = {k. map_of (userSockets st) k = Some s}"
  using mapped_key by (auto simp: user_keys_def)

lemma is_user_room_user_room: "is_user_room (user_room u)"
  by (simp add: is_user_room_def user_room_def)

lemma join_user_room_rejected:
  "\<not> truthy u \<Longrightarrow> join_user_room u now sock st = (sock, st, [(sock_id sock, JoinError ''User ID is required'')])"
  by (simp add: join_user_room_def socket_emit_def)

lemma join_user_room_inv:
  assumes "user_scope_inv sock st" and "join_user_room u now sock st = (sock', st', ds)"
  shows "user_scope_inv sock' st' \<and> sock_id sock' = sock_id sock \<and>
         sock_userId sock' = (if truthy u then u else sock_userId sock)"
proof (cases "truthy u")
  case False
  with assms show ?thesis by (simp add: join_user_room_rejected)
next
  case True
  note tu = True
  show ?thesis
  proof (cases "truthy (sock_userId sock)")
    case True
    from assms(1) True have
      r0: "\<And>r. is_user_room r \<Longrightarrow> in_room (rooms st) r (sock_id sock) \<longleftrightarrow> r = user_room (sock_userId sock)"
      and k0: "\<And>k. map_of (userSockets st) k = Some (sock_id sock) \<longleftrightarrow> k = sock_userId sock"
      unfolding user_scope_inv_def by auto
    from assms(2) tu True have
      sock': "sock' = sock\<lparr>sock_userId := u\<rparr>" and
      rooms': "rooms st' = adapter_add (sock_id sock) (user_room u)
                 (adapter_del (sock_id sock) (user_room (sock_userId sock)) (rooms st))" and
      us': "userSockets st' = AList.update u (sock_id sock)
                 (AList.delete (sock_userId sock) (userSockets st))"
      by (auto simp: join_user_room_def Let_def)
    have "{r. is_user_room r \<and> in_room (rooms st') r (sock_id sock)} = {user_room u}"
      unfolding rooms' using r0 by (auto simp: in_room_add in_room_del is_user_room_user_room)
    moreover have "{k. map_of (userSockets st') k = Some (sock_id sock)} = {u}"
      unfolding us' using k0 by (auto simp: AList.update_conv' AList.delete_conv')
    ultimately show ?thesis using tu sock' by (simp add: user_scope_inv_def)
  next
    case False
    from assms(1) False have
      r0: "\<And>r. is_user_room r \<Longrightarrow> \<not> in_room (rooms st) r (sock_id sock)"
      and k0: "\<And>k. map_of (userSockets st) k \<noteq> Some (sock_id sock)"
      unfolding user_scope_inv_def by auto
    from assms(2) tu False have
      sock': "sock' = sock\<lparr>sock_userId := u\<rparr>" and
      rooms': "rooms st' = adapter_add (sock_id sock) (user_room u) (rooms st)" and
      us': "userSockets st' = AList.update u (sock_id sock) (userSockets st)"
      by (auto simp: join_user_room_def Let_def)
    have "{r. is_user_room r \<and> in_room (rooms st') r (sock_id sock)} = {user_room u}"
      unfolding rooms' using r0 by (auto simp: in_room_add is_user_room_user_room)
    moreover have "{k. map_of (userSockets st') k = Some (sock_id sock)} = {u}"
      unfolding us' using k0 by (auto simp: AList.update_conv')
    ultimately show ?thesis using tu sock' by (simp add: user_scope_inv_def)
  qed
qed

lemma join_user_rooms_inv:
  "user_scope_inv sock st \<Longrightarrow> join_user_rooms reqs sock st = (sock', st') \<Longrightarrow>
   user_scope_inv sock' st' \<and> sock_id sock' = sock_id sock \<and>
   sock_userId sock' = (case last_joined reqs of None \<Rightarrow> sock_userId sock | Some u \<Rightarrow> u)"
proof (induction reqs arbitrary: sock st)
  case Nil
  then show ?case by simp
next
  case (Cons req reqs)
  obtain u now where req: "req = (u, now)" by (cases req)
  obtain sock1 st1 ds where step: "join_user_room u now sock st = (sock1, st1, ds)"
    by (cases "join_user_room u now sock st")
  from join_user_room_inv[OF Cons.prems(1) step] have
    inv1: "user_scope_inv sock1 st1" and id1: "sock_id sock1 = sock_id sock"
    and u1: "sock_userId sock1 = (if truthy u then u else sock_userId sock)" by auto
  from Cons.prems(2) req step have rest: "join_user_rooms reqs sock1 st1 = (sock', st')" by simp
  from Cons.IH[OF inv1 rest] id1 u1 req show ?case
    by (auto split: option.splits)
qed

lemma last_joined_truthy: "last_joined reqs = Some u \<Longrightarrow> truthy u"
  by (induction reqs rule: last_joined.induct) (auto split: option.splits if_splits)

text \<open>
  C6. A connection holds at most one user scope. After any sequence of
  \<^verbatim>\<open>join-user-room\<close> requests on a fresh connection, the user rooms the connection is a
  member of are exactly the room of the last request that carried an identifier (none
  if there was no such request), and the same holds for the keys of \<^verbatim>\<open>userSockets\<close>
  mapped to the connection: each join leaves the previous room and deletes the previous
  mapping first.
\<close>

theorem one_user_scope_per_connection:
  assumes "\<not> truthy (sock_userId sock)"
    and "user_scopes st (sock_id sock) = []"
    and "user_keys st (sock_id sock) = []"
  shows "set (user_scopes (snd (join_user_rooms reqs sock st)) (sock_id sock)) =
           (case last_joined reqs of None \<Rightarrow> {} | Some u \<Rightarrow> {user_room u}) \<and>
         set (user_keys (snd (join_user_rooms reqs sock st)) (sock_id sock)) =
           (case last_joined reqs of None \<Rightarrow> {} | Some u \<Rightarrow> {u})"
proof -
  from assms(2) have "set (user_scopes st (sock_id sock)) = {}" by simp
  moreover from assms(3) have "set (user_keys st (sock_id sock)) = {}" by simp
  ultimately have inv0: "user_scope_inv sock st"
    using assms(1) unfolding set_user_scopes set_user_keys user_scope_inv_def by simp
  obtain sock' st' where run: "join_user_rooms reqs sock st = (sock', st')"
    by (cases "join_user_rooms reqs sock st")
  from join_user_rooms_inv[OF inv0 run] have
    inv: "user_scope_inv sock' st'" and sid: "sock_id sock' = sock_id sock"
    and uid: "sock_userId sock' = (case last_joined reqs of None \<Rightarrow> sock_userId sock | Some u \<Rightarrow> u)"
    by auto
  show ?thesis
  proof (cases "last_joined reqs")
    case None
    with uid assms(1) have "\<not> truthy (sock_userId sock')" by simp
    with inv sid None run show ?thesis
      unfolding set_user_scopes set_user_keys user_scope_inv_def by simp
  next
    case (Some u)
    with uid last_joined_truthy have "sock_userId sock' = u" "truthy u" by auto
    with inv sid Some run show ?thesis
      unfolding set_user_scopes set_user_keys user_scope_inv_def by simp
  qed
qed

theorem one_user_scope_per_connection_witness:
  "\<not> truthy (sock_userId (new_socket ''s1'')) \<and>
   user_scopes \<lparr>io_ready = True, clientsCount = 1, sockets = [''s1''], rooms = [(''s1'', [''s1''])],
                sentNotifications = [], userSockets = []\<rparr> (sock_id (new_socket ''s1'')) = [] \<and>
   user_keys \<lparr>io_ready = True, clientsCount = 1, sockets = [''s1''], rooms = [(''s1'', [''s1''])],
                sentNotifications = [], userSockets = []\<rparr> (sock_id (new_socket ''s1'')) = [] \<and>
   set (user_scopes (snd (join_user_rooms [(JStr ''1'', 10), (JStr '''', 15), (JStr ''2'', 20)]
          (new_socket ''s1'')
          \<lparr>io_ready = True, clientsCount = 1, sockets = [''s1''], rooms = [(''s1'', [''s1''])],
            sentNotifications = [], userSockets = []\<rparr>)) ''s1'') = {''user-2''}"
  using one_user_scope_per_connection[of "new_socket ''s1''"
      "\<lparr>io_ready = True, clientsCount = 1, sockets = [''s1''], rooms = [(''s1'', [''s1''])],
        sentNotifications = [], userSockets = []\<rparr>"
      "[(JStr ''1'', 10), (JStr '''', 15), (JStr ''2'', 20)]"]
  by (simp add: new_socket_def user_scopes_def user_keys_def is_user_room_def user_room_def)

text \<open>
  C7, as amended. Waiter rooms accumulate: after \<^verbatim>\<open>join-waiter-room\<close> for company
  \<open>A\<close> and then for company \<open>B\<close> the connection is in both waiter rooms and in the
  global room \<^verbatim>\<open>waiters\<close>. The company room is held one at a time: a
  \<^verbatim>\<open>join-company-room\<close> for a company with a different room leaves the previous company
  room before joining the new one.
\<close>

theorem waiter_rooms_accumulate_company_room_single:
  "(truthy A \<and> truthy B \<longrightarrow>
      (case join_waiter_room A sock st of (sock1, st1, _) \<Rightarrow>
       case join_waiter_room B sock1 st1 of (sock2, st2, _) \<Rightarrow>
         in_room (rooms st2) (waiter_room A) (sock_id sock) \<and>
         in_room (rooms st2) (waiter_room B) (sock_id sock) \<and>
         in_room (rooms st2) ''waiters'' (sock_id sock))) \<and>
   (truthy u \<and> truthy A \<and> truthy u' \<and> truthy B \<and> company_room A \<noteq> company_room B \<longrightarrow>
      (case join_company_room (Some \<lparr>cj_userId = u, cj_companyId = A\<rparr>) now sock st of
         Inl _ \<Rightarrow> False
       | Inr (sock1, st1, _) \<Rightarrow>
           (case join_company_room (Some \<lparr>cj_userId = u', cj_companyId = B\<rparr>) now' sock1 st1 of
              Inl _ \<Rightarrow> False
            | Inr (sock2, st2, _) \<Rightarrow>
                in_room (rooms st1) (company_room A) (sock_id sock) \<and>
                \<not> in_room (rooms st2) (company_room A) (sock_id sock) \<and>
                in_room (rooms st2) (company_room B) (sock_id sock))))"
  by (simp add: join_waiter_room_def join_company_room_def Let_def in_room_add in_room_del)

theorem waiter_rooms_accumulate_company_room_single_witness:
  "truthy (JStr ''A'') \<and> truthy (JStr ''B'') \<and> truthy (JStr ''u1'') \<and>
   company_room (JStr ''A'') \<noteq> company_room (JStr ''B'') \<and>
   (case join_waiter_room (JStr ''A'') (new_socket ''s1'')
           \<lparr>io_ready = True, clientsCount = 1, sockets = [''s1''], rooms = [],
             sentNotifications = [], userSockets = []\<rparr> of (sock1, st1, _) \<Rightarrow>
    case join_waiter_room (JStr ''B'') sock1 st1 of (sock2, st2, _) \<Rightarrow>
      in_room (rooms st2) ''waiters-A'' ''s1'' \<and> in_room (rooms st2) ''waiters-B'' ''s1'') \<and>
   (case join_company_room (Some \<lparr>cj_userId = JStr ''u1'', cj_companyId = JStr ''A''\<rparr>) 10
           (new_socket ''s1'')
           \<lparr>io_ready = True, clientsCount = 1, sockets = [''s1''], rooms = [],
             sentNotifications = [], userSockets = []\<rparr> of
      Inl _ \<Rightarrow> False
    | Inr (sock1, st1, _) \<Rightarrow>
        (case join_company_room (Some \<lparr>cj_userId = JStr ''u1'', cj_companyId = JStr ''B''\<rparr>) 20
                sock1 st1 of
           Inl _ \<Rightarrow> False
         | Inr (sock2, st2, _) \<Rightarrow>
             \<not> in_room (rooms st2) ''company-A'' ''s1'' \<and> in_room (rooms st2) ''company-B'' ''s1''))"
  using waiter_rooms_accumulate_company_room_single[where A = "JStr ''A''" and B = "JStr ''B''" and sock = "new_socket ''s1''"
      and st = "\<lparr>io_ready = True, clientsCount = 1, sockets = [''s1''], rooms = [],
        sentNotifications = [], userSockets = []\<rparr>" and u = "JStr ''u1''" and u' = "JStr ''u1''"
      and now = 10 and now' = 20]
  by (simp add: new_socket_def company_room_def waiter_room_def join_waiter_room_def
      join_company_room_def Let_def)

text \<open>
  C7 as stated fails for the organisation scope: after joining company \<open>A\<close> and then
  company \<open>B\<close>, the only room left is \<^verbatim>\<open>company-B\<close>.
\<close>

theorem two_company_rooms_counterexample:
  "join_company_room (Some \<lparr>cj_userId = JStr ''u1'', cj_companyId = JStr ''A''\<rparr>) 10
      (new_socket ''s1'')
      \<lparr>io_ready = True, clientsCount = 1, sockets = [''s1''], rooms = [],
        sentNotifications = [], userSockets = []\<rparr> =
     Inr (\<lparr>sock_id = ''s1'', sock_userId = JNull, sock_companyId = JStr ''A''\<rparr>,
      \<lparr>io_ready = True, clientsCount = 1, sockets = [''s1''], rooms = [(''company-A'', [''s1''])],
        sentNotifications = [], userSockets = []\<rparr>,
      [(''s1'', JoinedCompanyRoom (JStr ''u1'') (JStr ''A'') ''s1'' ''company-A'' 10)]) \<and>
   join_company_room (Some \<lparr>cj_userId = JStr ''u1'', cj_companyId = JStr ''B''\<rparr>) 20
      \<lparr>sock_id = ''s1'', sock_userId = JNull, sock_companyId = JStr ''A''\<rparr>
      \<lparr>io_ready = True, clientsCount = 1, sockets = [''s1''], rooms = [(''company-A'', [''s1''])],
        sentNotifications = [], userSockets = []\<rparr> =
     Inr (\<lparr>sock_id = ''s1'', sock_userId = JNull, sock_companyId = JStr ''B''\<rparr>,
      \<lparr>io_ready = True, clientsCount = 1, sockets = [''s1''], rooms = [(''company-B'', [''s1''])],
        sentNotifications = [], userSockets = []\<rparr>,
      [(''s1'', JoinedCompanyRoom (JStr ''u1'') (JStr ''B'') ''s1'' ''company-B'' 20)]) \<and>
   \<not> in_room [(''company-B'', [''s1''])] ''company-A'' ''s1''"
  by (simp add: join_company_room_def Let_def new_socket_def adapter_add_def adapter_del_def
      company_room_def socket_emit_def in_room_def room_sockets_def)

text \<open>
  A \<^verbatim>\<open>join-company-room\<close> request with no payload never reaches the guard: the
  handler raises, and neither an event nor a change of state follows.
\<close>

lemma join_company_room_without_payload:
  "join_company_room None now sock st = Inl TypeError"
  by (simp add: join_company_room_def)

text \<open>
  C8, as amended. A \<^verbatim>\<open>join-user-room\<close> request without a user identifier and a
  \<^verbatim>\<open>join-company-room\<close> request whose payload object lacks the user or the company
  identifier are answered with a \<^verbatim>\<open>join-error\<close> event to the requester and change
  nothing. A
  \<^verbatim>\<open>join-waiter-room\<close> request without a company identifier is not rejected: the
  connection joins the global room \<^verbatim>\<open>waiters\<close> and is answered with
  \<^verbatim>\<open>joined-waiter-room\<close>, \<^verbatim>\<open>success: true\<close>.
\<close>

theorem join_without_identifier:
  "(\<not> truthy userId \<longrightarrow>
      join_user_room userId now sock st =
        (sock, st, [(sock_id sock, JoinError ''User ID is required'')])) \<and>
   (\<not> truthy (cj_userId data) \<or> \<not> truthy (cj_companyId data) \<longrightarrow>
      join_company_room (Some data) now sock st =
        Inr (sock, st, [(sock_id sock, JoinError ''User ID and Company ID are required'')])) \<and>
   (\<not> truthy companyId \<longrightarrow>
      join_waiter_room companyId sock st =
        (sock, st\<lparr>rooms := adapter_add (sock_id sock) ''waiters'' (rooms st)\<rparr>,
         [(sock_id sock, JoinedWaiterRoom True companyId)]))"
  by (simp add: join_user_room_def join_company_room_def join_waiter_room_def socket_emit_def Let_def)

theorem join_without_identifier_witness:
  "\<not> truthy (JStr '''') \<and> \<not> truthy JUndefined \<and>
   join_user_room (JStr '''') 10 (new_socket ''s1'')
      \<lparr>io_ready = True, clientsCount = 1, sockets = [''s1''], rooms = [],
        sentNotifications = [], userSockets = []\<rparr> =
     (new_socket ''s1'',
      \<lparr>io_ready = True, clientsCount = 1, sockets = [''s1''], rooms = [],
        sentNotifications = [], userSockets = []\<rparr>,
      [(''s1'', JoinError ''User ID is required'')]) \<and>
   join_company_room (Some \<lparr>cj_userId = JStr ''u1'', cj_companyId = JUndefined\<rparr>) 10
      (new_socket ''s1'')
      \<lparr>io_ready = True, clientsCount = 1, sockets = [''s1''], rooms = [],
        sentNotifications = [], userSockets = []\<rparr> =
     Inr (new_socket ''s1'',
      \<lparr>io_ready = True, clientsCount = 1, sockets = [''s1''], rooms = [],
        sentNotifications = [], userSockets = []\<rparr>,
      [(''s1'', JoinError ''User ID and Company ID are required'')])"
  using join_without_identifier[of "JStr ''''" 10 "new_socket ''s1''"
      "\<lparr>io_ready = True, clientsCount = 1, sockets = [''s1''], rooms = [],
        sentNotifications = [], userSockets = []\<rparr>"
      "\<lparr>cj_userId = JStr ''u1'', cj_companyId = JUndefined\<rparr>" JUndefined]
  by (simp add: new_socket_def)

text \<open>
  C8 as stated fails for the waiter room: the request with no identifier joins a room
  and is answered with success.
\<close>

theorem waiter_join_without_identifier_counterexample:
  "join_waiter_room JUndefined (new_socket ''s1'')
      \<lparr>io_ready = True, clientsCount = 1, sockets = [''s1''], rooms = [],
        sentNotifications = [], userSockets = []\<rparr> =
     (new_socket ''s1'',
      \<lparr>io_ready = True, clientsCount = 1, sockets = [''s1''], rooms = [(''waiters'', [''s1''])],
        sentNotifications = [], userSockets = []\<rparr>,
      [(''s1'', JoinedWaiterRoom True JUndefined)])"
  by (simp add: join_waiter_room_def socket_emit_def Let_def new_socket_def adapter_add_def)

section \<open>The subscription stores\<close>








lemma same_user_trips: "same_user (m\<lparr>trips := t\<rparr>) = same_user m"
  by (simp add: same_user_def fun_eq_iff)



















lemma mysql_lookup_trips: "mysql_lookup (m\<lparr>trips := t\<rparr>) u = mysql_lookup m u"
  by (simp add: mysql_lookup_def same_user_trips)
















lemma check_fst: "fst (checkMySQLHealth net now st) = isOnline (snd (checkMySQLHealth net now st))"
  by (cases "testConnection net (mysqlDB st)") (simp add: checkMySQLHealth_def Let_def)







text \<open>
  The table's comparison matters to what a replay leaves: an entry for an identifier
  that differs only in letter case is an entry for the same row.
\<close>

lemma replay_case_variant:
  "same_user \<lparr>table_rows = [], auto_increment = 1, trips = 0, collation = ci_key\<rparr> ''U1'' ''u1'' \<and>
   table_rows (fold (replay always_up 9) [OpAdd ''u1'' ''sub'' 5, OpRemove ''U1'' 6]
      \<lparr>table_rows = [], auto_increment = 1, trips = 0, collation = ci_key\<rparr>) = []"
  by (simp add: always_up_def mysql_addSubscription_def mysql_removeSubscription_def
      getConnection_def round_trip_def Let_def same_user_def ci_key_def lower_char_def)



end
